theory Spec2Isabelle
  imports Main
begin

section \<open>Project 2: the messenger client (messenger.py)\<close>

text \<open>
  A shallow embedding of \<^verbatim>\<open>MessengerClient\<close>. The class keeps two dictionaries
  (\<^verbatim>\<open>certs\<close>, \<^verbatim>\<open>conns\<close>) and its identity keys; every method becomes a function from
  the client (and the state of the random source) to the raised error or the returned
  value, together with the client and the random source as the call leaves them. The
  state is returned on the error paths too, since a Python exception does not undo the
  assignments made before it.
\<close>

subsection \<open>Values\<close>

text \<open>
  The exceptions the methods can raise. The four \<^verbatim>\<open>raise ValueError(...)\<close> of the source
  differ by their message only, so the message is kept. \<open>TypeError\<close> is what Python
  raises for \<^verbatim>\<open>self.my_keys["private"]\<close> while \<^verbatim>\<open>my_keys\<close> is still \<^verbatim>\<open>None\<close>;
  \<open>KeyError\<close> is a missing dictionary key.
\<close>

datatype error = ValueError string | TypeError | KeyError

text \<open>What is encrypted: the message text, or (on the escrow path) a key.\<close>

datatype 'v payload = Str string | Bytes 'v

text \<open>The dictionary \<^verbatim>\<open>{"private": ..., "public": ...}\<close> returned by \<^verbatim>\<open>generate_eg\<close>.\<close>

record 'v keypair =
  kp_private :: 'v
  kp_public :: 'v

record 'v certificate =
  username :: string
  public_key :: 'v

text \<open>The header dictionary of a message; the fields carry the prefix \<open>h_\<close>.\<close>

record ('v, 'c) header =
  h_dh_public_key :: 'v
  h_prev_chain_length :: int
  h_message_n :: int
  h_receiver_iv :: 'v
  h_v_gov :: 'v
  h_c_gov :: 'c
  h_iv_gov :: 'v

text \<open>
  One entry of \<^verbatim>\<open>self.conns\<close>. Both initialisers write all ten keys, so the defaults of
  the \<^verbatim>\<open>conn.get(key, default)\<close> calls are never used. Three fields can hold \<^verbatim>\<open>None\<close>.
\<close>

record 'v conn =
  my_dh_private_key :: 'v
  my_dh_public_key :: 'v
  their_dh_public_key :: "'v option"
  root_key :: 'v
  sending_chain_key :: "'v option"
  receiving_chain_key :: "'v option"
  message_n :: int
  their_message_n :: int
  prev_chain_length :: int
  need_ratchet :: bool

record 'v messenger_client =
  ca_public_key :: 'v
  gov_public_key :: 'v
  conns :: "string \<rightharpoonup> 'v conn"
  certs :: "string \<rightharpoonup> 'v certificate"
  my_certificate :: "'v certificate option"
  my_keys :: "'v keypair option"

subsection \<open>The primitive library\<close>

text \<open>
  \<^verbatim>\<open>lib.py\<close> is not among the sources, so the functions imported from it are parameters:
  a record of functions over a type \<open>'v\<close> of keys and byte strings, a type \<open>'c\<close> of
  ciphertexts (the pair of bytes and tag) and a type \<open>'r\<close> of states of the random source.
  The two functions that draw randomness take the state of the source and return the
  next one. \<open>decrypt_with_gcm\<close> returns \<open>None\<close> where the library raises. The optional
  last argument of the two GCM functions is \<open>None\<close> where the call leaves it out.
  \<open>str_header\<close> and \<open>str_certificate\<close> stand for Python's \<^verbatim>\<open>str\<close> on the two
  dictionaries, whose text depends on how the library's key objects print.
\<close>

record ('v, 'c, 'r) lib =
  gen_random_salt :: "'r \<Rightarrow> 'v \<times> 'r"
  generate_eg :: "'r \<Rightarrow> 'v keypair \<times> 'r"
  compute_dh :: "'v \<Rightarrow> 'v \<Rightarrow> 'v"
  verify_with_ecdsa :: "'v \<Rightarrow> string \<Rightarrow> 'v \<Rightarrow> bool"
  hmac_to_aes_key :: "'v \<Rightarrow> string \<Rightarrow> 'v"
  hmac_to_hmac_key :: "'v \<Rightarrow> string \<Rightarrow> 'v"
  hkdf :: "'v \<Rightarrow> 'v \<Rightarrow> string \<Rightarrow> 'v \<times> 'v"
  encrypt_with_gcm :: "'v \<Rightarrow> 'v payload \<Rightarrow> 'v \<Rightarrow> string option \<Rightarrow> 'c"
  decrypt_with_gcm :: "'v \<Rightarrow> 'c \<Rightarrow> 'v \<Rightarrow> string option \<Rightarrow> 'v payload option"
  gov_encryption_data_str :: string
  str_header :: "('v, 'c) header \<Rightarrow> string"
  str_certificate :: "'v certificate \<Rightarrow> string"

text \<open>
  The library's functions take keys. Where the source can hand one of them a \<^verbatim>\<open>None\<close>
  (a chain key or a peer key that was never set), the model raises \<open>TypeError\<close> at that
  call, so that no theorem rests on what the library would compute from \<^verbatim>\<open>None\<close>.
  A header always carries a key in \<^verbatim>\<open>dh_public_key\<close>, as every header built by
  \<^verbatim>\<open>send_message\<close> does, and the \<^verbatim>\<open>!=\<close> of \<^verbatim>\<open>receive_message\<close> compares keys as values.
\<close>

subsection \<open>The methods\<close>

definition MessengerClient :: "'v \<Rightarrow> 'v \<Rightarrow> 'v messenger_client" where
  "MessengerClient cert_authority_public_key gov_pk =
     \<lparr>ca_public_key = cert_authority_public_key, gov_public_key = gov_pk,
      conns = Map.empty, certs = Map.empty, my_certificate = None, my_keys = None\<rparr>"

definition generate_certificate ::
  "('v, 'c, 'r) lib \<Rightarrow> string \<Rightarrow> 'v messenger_client \<times> 'r
     \<Rightarrow> 'v certificate \<times> 'v messenger_client \<times> 'r" where
  "generate_certificate L uname w =
     (case w of (c, r) \<Rightarrow>
        (case generate_eg L r of (keys, r1) \<Rightarrow>
           let certificate = \<lparr>username = uname, public_key = kp_public keys\<rparr>
           in (certificate, c\<lparr>my_keys := Some keys, my_certificate := Some certificate\<rparr>, r1)))"

definition receive_certificate ::
  "('v, 'c, 'r) lib \<Rightarrow> 'v certificate \<Rightarrow> 'v \<Rightarrow> 'v messenger_client
     \<Rightarrow> (error + unit) \<times> 'v messenger_client" where
  "receive_certificate L certificate signature c =
     (let valid = verify_with_ecdsa L (ca_public_key c) (str_certificate L certificate) signature
      in if \<not> valid then (Inl (ValueError ''Tampering detected!''), c)
         else (Inr (), c\<lparr>certs := (certs c)(username certificate \<mapsto> certificate)\<rparr>))"

definition initialize_sending_session ::
  "('v, 'c, 'r) lib \<Rightarrow> string \<Rightarrow> 'v messenger_client \<times> 'r
     \<Rightarrow> (error + unit) \<times> 'v messenger_client \<times> 'r" where
  "initialize_sending_session L recipient_name w =
     (case w of (c, r) \<Rightarrow>
      (case certs c recipient_name of
         None \<Rightarrow> (Inl KeyError, c, r)
       | Some recipient_cert \<Rightarrow>
          (case generate_eg L r of (dh_keys, r1) \<Rightarrow>
           (case my_keys c of
              None \<Rightarrow> (Inl TypeError, c, r1)
            | Some keys \<Rightarrow>
               let shared_secret = compute_dh L (kp_private keys) (public_key recipient_cert);
                   new_conn = \<lparr>my_dh_private_key = kp_private dh_keys,
                               my_dh_public_key = kp_public dh_keys,
                               their_dh_public_key = None,
                               root_key = shared_secret,
                               sending_chain_key = None,
                               receiving_chain_key = None,
                               message_n = 0,
                               their_message_n = - 1,
                               prev_chain_length = 0,
                               need_ratchet = False\<rparr>
               in (case gen_random_salt L r1 of (salt, r2) \<Rightarrow>
                   (case hkdf L shared_secret salt ''sending_chain_init'' of (chain_key, next_key) \<Rightarrow>
                      (Inr (),
                       c\<lparr>conns := (conns c)(recipient_name \<mapsto>
                            new_conn\<lparr>sending_chain_key := Some chain_key\<rparr>)\<rparr>,
                       r2)))))))"

definition initialize_receiving_session ::
  "('v, 'c, 'r) lib \<Rightarrow> string \<Rightarrow> ('v, 'c) header \<Rightarrow> 'v messenger_client \<times> 'r
     \<Rightarrow> (error + unit) \<times> 'v messenger_client \<times> 'r" where
  "initialize_receiving_session L sender_name hdr w =
     (case w of (c, r) \<Rightarrow>
      (case certs c sender_name of
         None \<Rightarrow> (Inl KeyError, c, r)
       | Some sender_cert \<Rightarrow>
          (case my_keys c of
             None \<Rightarrow> (Inl TypeError, c, r)
           | Some keys \<Rightarrow>
              let shared_secret = compute_dh L (kp_private keys) (public_key sender_cert);
                  new_conn = \<lparr>my_dh_private_key = kp_private keys,
                              my_dh_public_key = kp_public keys,
                              their_dh_public_key = Some (h_dh_public_key hdr),
                              root_key = shared_secret,
                              sending_chain_key = None,
                              receiving_chain_key = None,
                              message_n = 0,
                              their_message_n = - 1,
                              prev_chain_length = 0,
                              need_ratchet = False\<rparr>
              in (case gen_random_salt L r of (salt, r1) \<Rightarrow>
                  (case hkdf L shared_secret salt ''receiving_chain_init'' of (next_key, chain_key) \<Rightarrow>
                     (Inr (),
                      c\<lparr>conns := (conns c)(sender_name \<mapsto>
                           new_conn\<lparr>receiving_chain_key := Some chain_key\<rparr>)\<rparr>,
                      r1))))))"

definition ratchet_dh_sending_keys ::
  "('v, 'c, 'r) lib \<Rightarrow> string \<Rightarrow> 'v messenger_client \<times> 'r
     \<Rightarrow> (error + unit) \<times> 'v messenger_client \<times> 'r" where
  "ratchet_dh_sending_keys L recipient_name w =
     (case w of (c, r) \<Rightarrow>
      (case conns c recipient_name of
         None \<Rightarrow> (Inl KeyError, c, r)
       | Some cn \<Rightarrow>
          let cn1 = cn\<lparr>prev_chain_length := message_n cn\<rparr>;
              cn2 = cn1\<lparr>message_n := 0\<rparr>
          in (case generate_eg L r of (dh_keys, r1) \<Rightarrow>
              let cn3 = cn2\<lparr>my_dh_private_key := kp_private dh_keys,
                             my_dh_public_key := kp_public dh_keys\<rparr>
              in (case their_dh_public_key cn3 of
                    None \<Rightarrow> (Inl TypeError, c\<lparr>conns := (conns c)(recipient_name \<mapsto> cn3)\<rparr>, r1)
                  | Some their_pk \<Rightarrow>
                     let dh_output = compute_dh L (my_dh_private_key cn3) their_pk
                     in (case gen_random_salt L r1 of (salt, r2) \<Rightarrow>
                         (case hkdf L dh_output salt ''dh_ratchet_sending'' of (rk, ck) \<Rightarrow>
                            let cn4 = cn3\<lparr>root_key := rk, sending_chain_key := Some ck\<rparr>;
                                cn5 = cn4\<lparr>need_ratchet := False\<rparr>
                            in (Inr (), c\<lparr>conns := (conns c)(recipient_name \<mapsto> cn5)\<rparr>, r2)))))))"

definition ratchet_dh_receiving_keys ::
  "('v, 'c, 'r) lib \<Rightarrow> string \<Rightarrow> ('v, 'c) header \<Rightarrow> 'v messenger_client \<times> 'r
     \<Rightarrow> (error + unit) \<times> 'v messenger_client \<times> 'r" where
  "ratchet_dh_receiving_keys L sender_name hdr w =
     (case w of (c, r) \<Rightarrow>
      (case conns c sender_name of
         None \<Rightarrow> (Inl KeyError, c, r)
       | Some cn \<Rightarrow>
          let cn1 = cn\<lparr>their_dh_public_key := Some (h_dh_public_key hdr)\<rparr>;
              dh_output = compute_dh L (my_dh_private_key cn1) (h_dh_public_key hdr)
          in (case gen_random_salt L r of (salt, r1) \<Rightarrow>
              (case hkdf L dh_output salt ''dh_ratchet_receiving'' of (rk, ck) \<Rightarrow>
                 let cn2 = cn1\<lparr>root_key := rk, receiving_chain_key := Some ck\<rparr>
                 in (Inr (), c\<lparr>conns := (conns c)(sender_name \<mapsto> cn2)\<rparr>, r1)))))"

definition ratchet_sending_chain :: "('v, 'c, 'r) lib \<Rightarrow> 'v \<Rightarrow> 'v \<times> 'v" where
  "ratchet_sending_chain L current_key =
     (let message_key = hmac_to_hmac_key L current_key ''message_key'';
          next_chain_key = hmac_to_hmac_key L current_key ''next_chain_key''
      in (message_key, next_chain_key))"

definition ratchet_receiving_chain :: "('v, 'c, 'r) lib \<Rightarrow> 'v \<Rightarrow> 'v \<times> 'v" where
  "ratchet_receiving_chain L current_key =
     (let message_key = hmac_to_hmac_key L current_key ''message_key'';
          next_chain_key = hmac_to_hmac_key L current_key ''next_chain_key''
      in (message_key, next_chain_key))"

definition send_message ::
  "('v, 'c, 'r) lib \<Rightarrow> string \<Rightarrow> string \<Rightarrow> 'v messenger_client \<times> 'r
     \<Rightarrow> (error + ('v, 'c) header \<times> 'c) \<times> 'v messenger_client \<times> 'r" where
  "send_message L name plaintext w =
     (case w of (c, r) \<Rightarrow>
      (case certs c name of
         None \<Rightarrow> (Inl (ValueError (''No certificate found for user '' @ name)), c, r)
       | Some recipient_cert \<Rightarrow>
          (case (if conns c name = None then initialize_sending_session L name (c, r)
                 else (Inr (), c, r)) of
             (Inl e, c1, r1) \<Rightarrow> (Inl e, c1, r1)
           | (Inr _, c1, r1) \<Rightarrow>
          (case conns c1 name of
             None \<Rightarrow> (Inl KeyError, c1, r1)
           | Some cn0 \<Rightarrow>
          (case (if need_ratchet cn0 then ratchet_dh_sending_keys L name (c1, r1)
                 else (Inr (), c1, r1)) of
             (Inl e, c2, r2) \<Rightarrow> (Inl e, c2, r2)
           | (Inr _, c2, r2) \<Rightarrow>
          (case conns c2 name of
             None \<Rightarrow> (Inl KeyError, c2, r2)
           | Some cn \<Rightarrow>
          (case gen_random_salt L r2 of (receiver_iv, r3) \<Rightarrow>
          (case gen_random_salt L r3 of (gov_iv, r4) \<Rightarrow>
          (case sending_chain_key cn of
             None \<Rightarrow> (Inl TypeError, c2, r4)
           | Some current_key \<Rightarrow>
          (case ratchet_sending_chain L current_key of (sending_key, next_chain_key) \<Rightarrow>
             let cn1 = cn\<lparr>sending_chain_key := Some next_chain_key\<rparr>;
                 aes_sending_key = hmac_to_aes_key L sending_key ''encrypt''
             in (case my_keys c2 of
                   None \<Rightarrow> (Inl TypeError, c2\<lparr>conns := (conns c2)(name \<mapsto> cn1)\<rparr>, r4)
                 | Some keys \<Rightarrow>
                    let gov_key = compute_dh L (kp_private keys) (gov_public_key c2);
                        gov_aes_key = hmac_to_aes_key L gov_key (gov_encryption_data_str L);
                        gov_ciphertext =
                          encrypt_with_gcm L gov_aes_key (Bytes aes_sending_key) gov_iv None;
                        hdr = \<lparr>h_dh_public_key = my_dh_public_key cn1,
                               h_prev_chain_length = prev_chain_length cn1,
                               h_message_n = message_n cn1,
                               h_receiver_iv = receiver_iv,
                               h_v_gov = kp_public keys,
                               h_c_gov = gov_ciphertext,
                               h_iv_gov = gov_iv\<rparr>;
                        cn2 = cn1\<lparr>message_n := message_n cn1 + 1\<rparr>;
                        ciphertext =
                          encrypt_with_gcm L aes_sending_key (Str plaintext) receiver_iv
                            (Some (str_header L hdr))
                    in (Inr (hdr, ciphertext),
                        c2\<lparr>conns := (conns c2)(name \<mapsto> cn2)\<rparr>, r4))))))))))))"

definition receive_message ::
  "('v, 'c, 'r) lib \<Rightarrow> string \<Rightarrow> ('v, 'c) header \<times> 'c \<Rightarrow> 'v messenger_client \<times> 'r
     \<Rightarrow> (error + 'v payload) \<times> 'v messenger_client \<times> 'r" where
  "receive_message L name message w =
     (case w of (c, r) \<Rightarrow>
      (case message of (hdr, ciphertext) \<Rightarrow>
      (case certs c name of
         None \<Rightarrow> (Inl (ValueError (''No certificate found for user '' @ name)), c, r)
       | Some sender_cert \<Rightarrow>
          (case (if conns c name = None then initialize_receiving_session L name hdr (c, r)
                 else (Inr (), c, r)) of
             (Inl e, c1, r1) \<Rightarrow> (Inl e, c1, r1)
           | (Inr _, c1, r1) \<Rightarrow>
          (case conns c1 name of
             None \<Rightarrow> (Inl KeyError, c1, r1)
           | Some cn0 \<Rightarrow>
          (case (if Some (h_dh_public_key hdr) \<noteq> their_dh_public_key cn0
                 then ratchet_dh_receiving_keys L name hdr (c1, r1)
                 else (Inr (), c1, r1)) of
             (Inl e, c2, r2) \<Rightarrow> (Inl e, c2, r2)
           | (Inr _, c2, r2) \<Rightarrow>
          (case conns c2 name of
             None \<Rightarrow> (Inl KeyError, c2, r2)
           | Some cn \<Rightarrow>
             if h_message_n hdr < their_message_n cn
             then (Inl (ValueError ''Message replay detected!''), c2, r2)
             else
               let expected_message_n = their_message_n cn
               in if h_message_n hdr = expected_message_n
                  then
                    (case receiving_chain_key cn of
                       None \<Rightarrow> (Inl TypeError, c2, r2)
                     | Some current_key \<Rightarrow>
                    (case ratchet_receiving_chain L current_key of
                       (receiving_key, next_chain_key) \<Rightarrow>
                       let cn1 = cn\<lparr>receiving_chain_key := Some next_chain_key\<rparr>;
                           aes_receiving_key = hmac_to_aes_key L receiving_key ''decrypt''
                       in (case decrypt_with_gcm L aes_receiving_key ciphertext
                                  (h_receiver_iv hdr) (Some (str_header L hdr)) of
                             None \<Rightarrow>
                               (Inl (ValueError ''Message tampering detected!''),
                                c2\<lparr>conns := (conns c2)(name \<mapsto> cn1)\<rparr>, r2)
                           | Some plaintext \<Rightarrow>
                               let cn2 = cn1\<lparr>their_message_n := h_message_n hdr + 1\<rparr>;
                                   cn3 = cn2\<lparr>need_ratchet := True\<rparr>
                               in (Inr plaintext,
                                   c2\<lparr>conns := (conns c2)(name \<mapsto> cn3)\<rparr>, r2))))
                  else (Inl (ValueError ''Message tampering detected!''), c2, r2))))))))"

subsection \<open>Sequences of calls\<close>

text \<open>
  A run of a client: a list of \<^verbatim>\<open>send_message\<close> and \<^verbatim>\<open>receive_message\<close> calls, each on
  the state the one before left, whether it returned or raised.
\<close>

datatype ('v, 'c) call = Send string string | Receive string "('v, 'c) header \<times> 'c"

fun step ::
  "('v, 'c, 'r) lib \<Rightarrow> ('v, 'c) call \<Rightarrow> 'v messenger_client \<times> 'r \<Rightarrow> 'v messenger_client \<times> 'r"
  where
  "step L (Send name plaintext) w = snd (send_message L name plaintext w)"
| "step L (Receive name message) w = snd (receive_message L name message w)"

fun run ::
  "('v, 'c, 'r) lib \<Rightarrow> ('v, 'c) call list \<Rightarrow> 'v messenger_client \<times> 'r
     \<Rightarrow> 'v messenger_client \<times> 'r" where
  "run L [] w = w"
| "run L (x # xs) w = run L xs (step L x w)"

text \<open>Whether a call is a \<^verbatim>\<open>send_message\<close> to the given peer.\<close>

fun sends_to :: "string \<Rightarrow> ('v, 'c) call \<Rightarrow> bool" where
  "sends_to n (Send name plaintext) = (name = n)"
| "sends_to n (Receive name message) = False"

subsection \<open>A small instance of the library\<close>

text \<open>
  An instance of the library over the natural numbers, for evaluating the methods on
  concrete inputs. The random source is a counter. A private key \<open>a\<close> has the public key
  \<open>7 * a\<close>, and the shared secret of \<open>a\<close> and \<open>7 * b\<close> is their product, the same from
  both sides. A ciphertext records the key, the payload, the IV and the associated data;
  decryption returns the payload when key, IV and associated data are the ones of the
  encryption, and fails otherwise.
\<close>

type_synonym toy_ct = "nat \<times> nat payload \<times> nat \<times> string option"

definition toy_decrypt :: "nat \<Rightarrow> toy_ct \<Rightarrow> nat \<Rightarrow> string option \<Rightarrow> nat payload option" where
  "toy_decrypt k ct iv aad =
     (case ct of (k', p, iv', aad') \<Rightarrow>
        if k = k' \<and> iv = iv' \<and> aad = aad' then Some p else None)"

definition toy_lib :: "(nat, toy_ct, nat) lib" where
  "toy_lib =
     \<lparr>gen_random_salt = (\<lambda>r. (r, Suc r)),
      generate_eg = (\<lambda>r. (\<lparr>kp_private = Suc r, kp_public = 7 * Suc r\<rparr>, Suc r)),
      compute_dh = (\<lambda>a b. a * b),
      verify_with_ecdsa = (\<lambda>pk m s. s = pk + length m),
      hmac_to_aes_key = (\<lambda>k label. 2 * k + length label),
      hmac_to_hmac_key = (\<lambda>k label. k + length label),
      hkdf = (\<lambda>ikm salt info. (ikm + salt, ikm + salt + length info)),
      encrypt_with_gcm = (\<lambda>k p iv aad. (k, p, iv, aad)),
      decrypt_with_gcm = toy_decrypt,
      gov_encryption_data_str = ''AES-GCM'',
      str_header = (\<lambda>h. if h_message_n h < 0 then ''-'' else replicate (nat (h_message_n h)) CHR ''n''),
      str_certificate = username\<rparr>"

text \<open>
  Two clients, each after \<^verbatim>\<open>generate_certificate\<close> for itself and \<^verbatim>\<open>receive_certificate\<close>
  for the other. The authority's public key is 1000, so that the signature of a
  certificate is 1000 plus the length of the user name.
\<close>

definition alice :: "nat messenger_client \<times> nat" where
  "alice =
     (case generate_certificate toy_lib ''alice'' (MessengerClient 1000 21, 0) of
        (cert, c, r) \<Rightarrow>
          (snd (receive_certificate toy_lib \<lparr>username = ''bob'', public_key = 77\<rparr> 1003 c), r))"

definition bob :: "nat messenger_client \<times> nat" where
  "bob =
     (case generate_certificate toy_lib ''bob'' (MessengerClient 1000 21, 10) of
        (cert, c, r) \<Rightarrow>
          (snd (receive_certificate toy_lib \<lparr>username = ''alice'', public_key = 7\<rparr> 1005 c), r))"

text \<open>
  The message \<open>alice\<close> sends first, a second one, and a message made up by someone who
  knows the keys \<open>alice\<close> will derive: its index is \<open>- 1\<close>, the counter a session starts
  with, and its ciphertext is under the key \<open>alice\<close> reaches after the ratchet of her
  receiving side.
\<close>

definition msg_hello :: "(nat, toy_ct) header \<times> toy_ct" where
  "msg_hello =
     (\<lparr>h_dh_public_key = 14, h_prev_chain_length = 0, h_message_n = 0, h_receiver_iv = 3,
       h_v_gov = 7, h_c_gov = (49, Bytes 187, 4, None), h_iv_gov = 4\<rparr>,
      (187, Str ''hello'', 3, Some []))"

definition msg_again :: "(nat, toy_ct) header \<times> toy_ct" where
  "msg_again =
     (\<lparr>h_dh_public_key = 14, h_prev_chain_length = 0, h_message_n = 1, h_receiver_iv = 5,
       h_v_gov = 7, h_c_gov = (49, Bytes 215, 6, None), h_iv_gov = 6\<rparr>,
      (215, Str ''again'', 5, Some ''n''))"

definition forged_reply :: "(nat, toy_ct) header \<times> toy_ct" where
  "forged_reply =
     (\<lparr>h_dh_public_key = 84, h_prev_chain_length = 0, h_message_n = - 1, h_receiver_iv = 40,
       h_v_gov = 77, h_c_gov = (0, Bytes 0, 41, None), h_iv_gov = 41\<rparr>,
      (419, Str ''hi'', 40, Some ''-''))"

text \<open>
  The same for \<open>bob\<close>, who has no session yet: the ratchet key \<open>14\<close> of \<open>alice\<close>, the
  index \<open>- 1\<close>, and a ciphertext under the first key of the receiving chain \<open>bob\<close> will
  set up.
\<close>

definition forged_first :: "(nat, toy_ct) header \<times> toy_ct" where
  "forged_first =
     (\<lparr>h_dh_public_key = 14, h_prev_chain_length = 0, h_message_n = - 1, h_receiver_iv = 3,
       h_v_gov = 7, h_c_gov = (49, Bytes 187, 4, None), h_iv_gov = 4\<rparr>,
      (245, Str ''hello'', 3, Some ''-''))"

text \<open>A header that names a ratchet key the receiver has not seen, with a later index.\<close>

definition stray_message :: "(nat, toy_ct) header \<times> toy_ct" where
  "stray_message =
     (\<lparr>h_dh_public_key = 99, h_prev_chain_length = 0, h_message_n = 3, h_receiver_iv = 3,
       h_v_gov = 7, h_c_gov = (49, Bytes 187, 4, None), h_iv_gov = 4\<rparr>,
      (187, Str ''hello'', 3, Some []))"

subsection \<open>What holds of every session the methods build\<close>

text \<open>
  The counters of a session start at \<open>0\<close> and \<open>- 1\<close>; \<open>need_ratchet\<close> is set only by a
  receive, which has recorded the peer's ratchet key by then; and a session that has a
  peer key has a receiving chain. A client keeps a session only for a name it holds a
  certificate for, and only once it has its own keys.
\<close>

definition conn_inv :: "'v conn \<Rightarrow> bool" where
  "conn_inv s =
     (0 \<le> message_n s \<and> - 1 \<le> their_message_n s \<and>
      (need_ratchet s \<longrightarrow> their_dh_public_key s \<noteq> None) \<and>
      (their_dh_public_key s \<noteq> None \<longrightarrow> receiving_chain_key s \<noteq> None))"

definition client_inv :: "'v messenger_client \<Rightarrow> bool" where
  "client_inv c =
     (\<forall>name s. conns c name = Some s \<longrightarrow>
        conn_inv s \<and> certs c name \<noteq> None \<and> my_keys c \<noteq> None)"

text \<open>
  The states a client can be in: a new client, after any draws from the random source by
  others, after \<open>generate_certificate\<close>, after \<open>receive_certificate\<close> (whether it
  raised or not), and after any \<open>send_message\<close> or \<open>receive_message\<close>.
\<close>

inductive reachable :: "('v, 'c, 'r) lib \<Rightarrow> 'v messenger_client \<times> 'r \<Rightarrow> bool"
  for L :: "('v, 'c, 'r) lib" where
  created: "reachable L (MessengerClient ca gov, r)"
| drawn: "reachable L (c, r) \<Longrightarrow> reachable L (c, r')"
| generated: "reachable L w \<Longrightarrow> reachable L (snd (generate_certificate L uname w))"
| certified: "reachable L (c, r) \<Longrightarrow> reachable L (snd (receive_certificate L cert sg c), r)"
| called: "reachable L w \<Longrightarrow> reachable L (step L x w)"

section \<open>Unfolding the methods\<close>

lemmas method_defs =
  send_message_def receive_message_def initialize_sending_session_def
  initialize_receiving_session_def ratchet_dh_sending_keys_def ratchet_dh_receiving_keys_def
  ratchet_sending_chain_def ratchet_receiving_chain_def

lemmas toy_defs =
  alice_def bob_def generate_certificate_def receive_certificate_def MessengerClient_def
  toy_lib_def toy_decrypt_def msg_hello_def msg_again_def forged_reply_def forged_first_def
  stray_message_def
  Let_def

section \<open>What holds in every reachable state\<close>

text \<open>
  The two methods change the session of the name they are called with and nothing else
  but the random source; and they keep \<open>client_inv\<close>, which therefore holds in every
  reachable state. In particular a session with \<open>need_ratchet\<close> set holds a peer ratchet
  key, no \<open>message_n\<close> is negative, and a client with a session for a name holds a
  certificate for it and has its own keys.
\<close>

lemma their_key_eq_commute:
  "(Some x = their_dh_public_key s) = (their_dh_public_key s = Some x)"
  by auto

lemma send_message_other:
  "n \<noteq> name \<Longrightarrow> conns (fst (snd (send_message L name p (c, r)))) n = conns c n"
  by (simp add: method_defs Let_def case_prod_beta split: option.split sum.split)

lemma receive_message_other:
  "n \<noteq> name \<Longrightarrow> conns (fst (snd (receive_message L name m (c, r)))) n = conns c n"
  by (simp add: method_defs Let_def case_prod_beta split: option.split sum.split)

lemma send_message_frame:
  "certs (fst (snd (send_message L name p (c, r)))) = certs c \<and>
   my_keys (fst (snd (send_message L name p (c, r)))) = my_keys c"
  by (simp add: method_defs Let_def case_prod_beta split: option.split sum.split)

lemma receive_message_frame:
  "certs (fst (snd (receive_message L name m (c, r)))) = certs c \<and>
   my_keys (fst (snd (receive_message L name m (c, r)))) = my_keys c"
  by (simp add: method_defs Let_def case_prod_beta split: option.split sum.split)

lemma send_message_same:
  assumes "conns c name = Some s" and "conn_inv s"
  shows "pred_option conn_inv (conns (fst (snd (send_message L name p (c, r)))) name)"
  using assms
  by (simp add: method_defs conn_inv_def Let_def case_prod_beta split: option.split sum.split;
      auto)

lemma send_message_new:
  assumes "conns c name = None"
  shows "pred_option (\<lambda>s'. conn_inv s' \<and> certs c name \<noteq> None \<and> my_keys c \<noteq> None)
           (conns (fst (snd (send_message L name p (c, r)))) name)"
  using assms
  by (simp add: method_defs conn_inv_def Let_def case_prod_beta split: option.split sum.split;
      auto)

lemma receive_message_same:
  assumes "conns c name = Some s" and "conn_inv s"
  shows "pred_option conn_inv (conns (fst (snd (receive_message L name m (c, r)))) name)"
  using assms
  by (simp add: method_defs conn_inv_def Let_def case_prod_beta their_key_eq_commute
      split: option.split sum.split; auto)

lemma receive_message_new:
  assumes "conns c name = None"
  shows "pred_option (\<lambda>s'. conn_inv s' \<and> certs c name \<noteq> None \<and> my_keys c \<noteq> None)
           (conns (fst (snd (receive_message L name m (c, r)))) name)"
  using assms
  by (simp add: method_defs conn_inv_def Let_def case_prod_beta their_key_eq_commute
      split: option.split sum.split; auto)

lemma client_inv_MessengerClient: "client_inv (MessengerClient ca gov)"
  by (simp add: client_inv_def MessengerClient_def)

lemma client_inv_generate_certificate:
  "client_inv c \<Longrightarrow> client_inv (fst (snd (generate_certificate L uname (c, r))))"
  by (simp add: client_inv_def generate_certificate_def Let_def case_prod_beta)

lemma client_inv_receive_certificate:
  "client_inv c \<Longrightarrow> client_inv (snd (receive_certificate L cert sg c))"
  by (auto simp add: client_inv_def receive_certificate_def Let_def)

lemma client_inv_send_message:
  assumes "client_inv c"
  shows "client_inv (fst (snd (send_message L name p (c, r))))"
  unfolding client_inv_def
proof (intro allI impI)
  fix n s'
  assume a: "conns (fst (snd (send_message L name p (c, r)))) n = Some s'"
  have old: "\<And>s. conns c n = Some s \<Longrightarrow> conn_inv s \<and> certs c n \<noteq> None \<and> my_keys c \<noteq> None"
    using assms by (simp add: client_inv_def)
  have "conn_inv s' \<and> certs c n \<noteq> None \<and> my_keys c \<noteq> None"
  proof (cases "n = name")
    case False
    with a old show ?thesis
      by (simp add: send_message_other)
  next
    case True
    show ?thesis
    proof (cases "conns c name")
      case None
      from send_message_new [OF None, of L p r] a True show ?thesis
        by simp
    next
      case (Some s)
      with old True have "conn_inv s" and "certs c n \<noteq> None \<and> my_keys c \<noteq> None"
        by simp_all
      with send_message_same [OF Some, of L p r] a True show ?thesis
        by simp
    qed
  qed
  then show "conn_inv s' \<and> certs (fst (snd (send_message L name p (c, r)))) n \<noteq> None \<and>
      my_keys (fst (snd (send_message L name p (c, r)))) \<noteq> None"
    by (simp add: send_message_frame)
qed

lemma client_inv_receive_message:
  assumes "client_inv c"
  shows "client_inv (fst (snd (receive_message L name m (c, r))))"
  unfolding client_inv_def
proof (intro allI impI)
  fix n s'
  assume a: "conns (fst (snd (receive_message L name m (c, r)))) n = Some s'"
  have old: "\<And>s. conns c n = Some s \<Longrightarrow> conn_inv s \<and> certs c n \<noteq> None \<and> my_keys c \<noteq> None"
    using assms by (simp add: client_inv_def)
  have "conn_inv s' \<and> certs c n \<noteq> None \<and> my_keys c \<noteq> None"
  proof (cases "n = name")
    case False
    with a old show ?thesis
      by (simp add: receive_message_other)
  next
    case True
    show ?thesis
    proof (cases "conns c name")
      case None
      from receive_message_new [OF None, of L m r] a True show ?thesis
        by simp
    next
      case (Some s)
      with old True have "conn_inv s" and "certs c n \<noteq> None \<and> my_keys c \<noteq> None"
        by simp_all
      with receive_message_same [OF Some, of L m r] a True show ?thesis
        by simp
    qed
  qed
  then show "conn_inv s' \<and> certs (fst (snd (receive_message L name m (c, r)))) n \<noteq> None \<and>
      my_keys (fst (snd (receive_message L name m (c, r)))) \<noteq> None"
    by (simp add: receive_message_frame)
qed

lemma client_inv_step: "client_inv (fst w) \<Longrightarrow> client_inv (fst (step L x w))"
  by (cases w; cases x) (simp_all add: client_inv_send_message client_inv_receive_message)

lemma client_inv_run: "client_inv (fst w) \<Longrightarrow> client_inv (fst (run L xs w))"
  by (induction xs arbitrary: w) (simp_all add: client_inv_step)

lemma client_inv_need_ratchet:
  assumes "client_inv c" and "conns c name = Some s" and "need_ratchet s"
  shows "\<exists>pk. their_dh_public_key s = Some pk"
  using assms by (auto simp add: client_inv_def conn_inv_def)

lemma client_inv_session:
  assumes "client_inv c" and "conns c name = Some s"
  shows "0 \<le> message_n s \<and> (\<exists>cert. certs c name = Some cert) \<and> (\<exists>keys. my_keys c = Some keys)"
  using assms by (auto simp add: client_inv_def conn_inv_def)

lemma reachable_client_inv: "reachable L w \<Longrightarrow> client_inv (fst w)"
proof (induction rule: reachable.induct)
  case (created ca gov r)
  show ?case
    by (simp add: client_inv_MessengerClient)
next
  case (drawn c r r')
  then show ?case
    by simp
next
  case (generated w uname)
  then show ?case
    using client_inv_generate_certificate [of "fst w" L uname "snd w"] by simp
next
  case (certified c r cert sg)
  then show ?case
    by (simp add: client_inv_receive_certificate)
next
  case (called w x)
  then show ?case
    by (simp add: client_inv_step)
qed

section \<open>The first message between two peers\<close>

lemma send_message_header_counter:
  assumes "send_message L name p (c, r) = (Inr (h, ct), c', r')"
    and "\<forall>s. conns c name = Some s \<longrightarrow> 0 \<le> message_n s"
  shows "0 \<le> h_message_n h"
  using assms
  by (auto simp add: method_defs Let_def
      split: prod.splits option.splits sum.splits if_splits)

lemma receive_fresh_session:
  assumes "certs c name = Some cert" and "my_keys c = Some keys" and "conns c name = None"
    and "- 1 < h_message_n hdr"
  shows "fst (receive_message L name (hdr, ct) (c, r)) =
           Inl (ValueError ''Message tampering detected!'')"
  using assms
  by (auto simp add: method_defs Let_def
      split: prod.splits option.splits sum.splits if_splits)

text \<open>
  C1. The claim: between two peers that hold each other's certificate, what
  \<open>send_message\<close> produces is returned by \<open>receive_message\<close> on a session the receiver
  creates for it. The code does the opposite. A new receiving session expects the index
  \<open>- 1\<close>, and \<open>send_message\<close> numbers its messages from \<open>0\<close>: whatever the library
  computes, the receiver raises the tampering error on the message.
\<close>

theorem first_message_rejected:
  assumes "send_message L b_name p (a, ra) = (Inr (h, ct), a', ra')"
    and "\<forall>s. conns a b_name = Some s \<longrightarrow> 0 \<le> message_n s"
    and "certs b a_name = Some cert" and "my_keys b = Some keys" and "conns b a_name = None"
  shows "fst (receive_message L a_name (h, ct) (b, rb)) =
           Inl (ValueError ''Message tampering detected!'')"
proof -
  have "0 \<le> h_message_n h"
    using assms(1,2) by (rule send_message_header_counter)
  then have "- 1 < h_message_n h"
    by simp
  with assms(3,4,5) show ?thesis
    by (rule receive_fresh_session)
qed

text \<open>
  The instance: \<open>alice\<close> sends \<open>hello\<close> to \<open>bob\<close>, both holding the other's certificate
  and neither having a session yet; \<open>bob\<close> raises.
\<close>

theorem first_message_rejected_witness:
  "fst (send_message toy_lib ''bob'' ''hello'' alice) = Inr msg_hello \<and>
   fst (receive_message toy_lib ''alice'' msg_hello bob) =
     Inl (ValueError ''Message tampering detected!'')"
proof -
  have sent: "fst (send_message toy_lib ''bob'' ''hello'' alice) = Inr msg_hello"
    by (simp add: method_defs toy_defs Let_def)
  then have 1: "send_message toy_lib ''bob'' ''hello'' (fst alice, snd alice) =
      (Inr (fst msg_hello, snd msg_hello),
       fst (snd (send_message toy_lib ''bob'' ''hello'' alice)),
       snd (snd (send_message toy_lib ''bob'' ''hello'' alice)))"
    by (simp add: prod_eq_iff)
  have 2: "\<forall>s. conns (fst alice) ''bob'' = Some s \<longrightarrow> 0 \<le> message_n s"
    by (simp add: toy_defs)
  have 3: "certs (fst bob) ''alice'' = Some \<lparr>username = ''alice'', public_key = 7\<rparr>"
    by (simp add: toy_defs)
  have 4: "my_keys (fst bob) = Some \<lparr>kp_private = 11, kp_public = 77\<rparr>"
    by (simp add: toy_defs)
  have 5: "conns (fst bob) ''alice'' = None"
    by (simp add: toy_defs)
  from first_message_rejected [OF 1 2 3 4 5, of "snd bob"] sent show ?thesis
    by simp
qed

section \<open>What a failed receive leaves behind\<close>

text \<open>
  C2 (as amended). A \<open>receive_message\<close> that raises on a session the client already has
  leaves the two counters, \<open>need_ratchet\<close>, the sending chain, the local ratchet key pair
  and \<open>prev_chain_length\<close> of that session as they were, and touches no other session, no
  certificate and not the client's keys. When the header names the peer key the session
  already holds, \<open>their_dh_public_key\<close> and \<open>root_key\<close> are unchanged as well; and when
  moreover the index of the header is not the expected one, nothing at all has changed.
\<close>

theorem failed_receive_frame:
  assumes "certs c name = Some cert" and "conns c name = Some s"
    and "receive_message L name (hdr, ct) (c, r) = (Inl e, c', r')"
  shows "\<exists>s'. conns c' name = Some s' \<and>
           their_message_n s' = their_message_n s \<and> need_ratchet s' = need_ratchet s \<and>
           message_n s' = message_n s \<and> prev_chain_length s' = prev_chain_length s \<and>
           sending_chain_key s' = sending_chain_key s \<and>
           my_dh_private_key s' = my_dh_private_key s \<and>
           my_dh_public_key s' = my_dh_public_key s \<and>
           (their_dh_public_key s = Some (h_dh_public_key hdr) \<longrightarrow>
              their_dh_public_key s' = their_dh_public_key s \<and> root_key s' = root_key s \<and>
              (h_message_n hdr \<noteq> their_message_n s \<longrightarrow> c' = c \<and> r' = r)) \<and>
           certs c' = certs c \<and> my_keys c' = my_keys c \<and>
           (\<forall>n. n \<noteq> name \<longrightarrow> conns c' n = conns c n)"
  using assms
  by (auto simp add: method_defs Let_def
      split: prod.splits option.splits sum.splits if_splits)

text \<open>
  The instance: \<open>bob\<close> has a session for \<open>alice\<close> (her first message created it), and her
  second message, index \<open>1\<close> against the expected \<open>- 1\<close>, is refused and changes nothing.
\<close>

theorem failed_receive_frame_witness:
  "fst (receive_message toy_lib ''alice'' msg_again (step toy_lib (Receive ''alice'' msg_hello) bob)) =
     Inl (ValueError ''Message tampering detected!'') \<and>
   snd (receive_message toy_lib ''alice'' msg_again (step toy_lib (Receive ''alice'' msg_hello) bob)) =
     step toy_lib (Receive ''alice'' msg_hello) bob"
proof -
  let ?B = "step toy_lib (Receive ''alice'' msg_hello) bob"
  let ?s = "\<lparr>my_dh_private_key = 11, my_dh_public_key = 77, their_dh_public_key = Some 14,
             root_key = 77, sending_chain_key = None, receiving_chain_key = Some 108,
             message_n = 0, their_message_n = - 1, prev_chain_length = 0,
             need_ratchet = False\<rparr> :: nat conn"
  have 1: "certs (fst ?B) ''alice'' = Some \<lparr>username = ''alice'', public_key = 7\<rparr>"
    by (simp add: method_defs toy_defs Let_def)
  have 2: "conns (fst ?B) ''alice'' = Some ?s"
    by (simp add: method_defs toy_defs Let_def)
  have f: "fst (receive_message toy_lib ''alice'' msg_again ?B) =
      Inl (ValueError ''Message tampering detected!'')"
    by (simp add: method_defs toy_defs Let_def)
  then have 3: "receive_message toy_lib ''alice'' (fst msg_again, snd msg_again) (fst ?B, snd ?B) =
      (Inl (ValueError ''Message tampering detected!''),
       fst (snd (receive_message toy_lib ''alice'' msg_again ?B)),
       snd (snd (receive_message toy_lib ''alice'' msg_again ?B)))"
    by (simp add: prod_eq_iff)
  have 4: "their_dh_public_key ?s = Some (h_dh_public_key (fst msg_again))"
    and 5: "h_message_n (fst msg_again) \<noteq> their_message_n ?s"
    by (simp_all add: toy_defs)
  from failed_receive_frame [OF 1 2 3] 4 5 f show ?thesis
    by (auto simp add: prod_eq_iff)
qed

text \<open>
  Against C2 as stated, with no made-up input: \<open>bob\<close> has sent a message to \<open>alice\<close>, so
  he has a session for her that holds no peer key yet, and then her first message
  arrives. The call raises the tampering error (index \<open>0\<close> against the expected \<open>- 1\<close>),
  after the ratchet of the receiving side has set \<open>their_dh_public_key\<close> and replaced
  \<open>root_key\<close> and \<open>receiving_chain_key\<close>.
\<close>

theorem failed_receive_mutates:
  "fst (receive_message toy_lib ''alice'' msg_hello (step toy_lib (Send ''alice'' ''yo'') bob)) =
     Inl (ValueError ''Message tampering detected!'') \<and>
   conns (fst (step toy_lib (Send ''alice'' ''yo'') bob)) ''alice'' =
     Some \<lparr>my_dh_private_key = 12, my_dh_public_key = 84, their_dh_public_key = None,
           root_key = 77, sending_chain_key = Some 103, receiving_chain_key = None,
           message_n = 1, their_message_n = - 1, prev_chain_length = 0,
           need_ratchet = False\<rparr> \<and>
   conns (fst (snd (receive_message toy_lib ''alice'' msg_hello
                      (step toy_lib (Send ''alice'' ''yo'') bob)))) ''alice'' =
     Some \<lparr>my_dh_private_key = 12, my_dh_public_key = 84, their_dh_public_key = Some 14,
           root_key = 183, sending_chain_key = Some 103, receiving_chain_key = Some 203,
           message_n = 1, their_message_n = - 1, prev_chain_length = 0,
           need_ratchet = False\<rparr>"
  by (simp add: method_defs toy_defs)

section \<open>The two counters\<close>

lemma send_message_their_message_n:
  assumes "conns c n = Some s" and "snd (send_message L name p (c, r)) = (c', r')"
  shows "\<exists>s'. conns c' n = Some s' \<and> their_message_n s' = their_message_n s"
  using assms
  by (auto simp add: method_defs Let_def
      split: prod.splits option.splits sum.splits if_splits)

lemma receive_message_counters:
  assumes "conns c n = Some s" and "snd (receive_message L name m (c, r)) = (c', r')"
  shows "\<exists>s'. conns c' n = Some s' \<and> their_message_n s \<le> their_message_n s' \<and>
           message_n s' = message_n s"
  using assms
  by (cases m) (auto simp add: method_defs Let_def
      split: prod.splits option.splits sum.splits if_splits)

lemma send_message_same_message_n:
  assumes "conns c name = Some s"
  shows "map_option message_n (conns (fst (snd (send_message L name p (c, r)))) name) =
         Some (if need_ratchet s \<and> certs c name \<noteq> None
               then (if isl (fst (send_message L name p (c, r))) then 0 else 1)
               else (if isl (fst (send_message L name p (c, r)))
                     then message_n s else message_n s + 1))"
  using assms
  by (simp add: method_defs Let_def case_prod_beta split: option.split sum.split; auto)

lemma send_message_message_n:
  assumes "conns c n = Some s" and "snd (send_message L name p (c, r)) = (c', r')"
  shows "\<exists>s'. conns c' n = Some s' \<and>
           (if name = n \<and> need_ratchet s \<and> certs c n \<noteq> None
            then message_n s' = (if isl (fst (send_message L name p (c, r))) then 0 else 1)
            else message_n s' =
                   (if name = n \<and> \<not> isl (fst (send_message L name p (c, r)))
                    then message_n s + 1 else message_n s))"
proof (cases "name = n")
  case False
  then have "conns (fst (snd (send_message L name p (c, r)))) n = conns c n"
    by (simp add: send_message_other)
  with assms False show ?thesis
    by simp
next
  case True
  from send_message_same_message_n [of c name s L p r] assms True show ?thesis
    by (auto split: if_splits)
qed

lemma step_their_message_n:
  assumes "conns (fst w) n = Some s"
  shows "\<exists>s'. conns (fst (step L x w)) n = Some s' \<and> their_message_n s \<le> their_message_n s'"
proof (cases w)
  case (Pair c r)
  obtain c' r' where st: "step L x (c, r) = (c', r')"
    by (cases "step L x (c, r)")
  from assms Pair have s: "conns c n = Some s"
    by simp
  show ?thesis
  proof (cases x)
    case (Send name p)
    with st have "snd (send_message L name p (c, r)) = (c', r')"
      by simp
    from send_message_their_message_n [OF s this] Pair st show ?thesis
      by auto
  next
    case (Receive name m)
    with st have "snd (receive_message L name m (c, r)) = (c', r')"
      by simp
    from receive_message_counters [OF s this] Pair st show ?thesis
      by auto
  qed
qed

lemma run_their_message_n:
  "conns (fst w) n = Some s \<Longrightarrow>
     \<exists>s'. conns (fst (run L xs w)) n = Some s' \<and> their_message_n s \<le> their_message_n s'"
proof (induction xs arbitrary: w s)
  case Nil
  then show ?case
    by simp
next
  case (Cons x xs)
  from step_their_message_n [OF Cons.prems, of L x]
  obtain s1 where s1: "conns (fst (step L x w)) n = Some s1"
    and le1: "their_message_n s \<le> their_message_n s1"
    by blast
  from Cons.IH [OF s1] obtain s' where
    "conns (fst (run L xs (step L x w))) n = Some s'" "their_message_n s1 \<le> their_message_n s'"
    by blast
  with le1 show ?case
    by auto
qed

text \<open>
  C3 (as amended). Over any sequence of \<open>send_message\<close> and \<open>receive_message\<close> calls a
  session stays in the table and its \<open>their_message_n\<close> does not decrease. Its
  \<open>message_n\<close> is left alone by \<open>receive_message\<close> and by a \<open>send_message\<close> to another
  peer; a \<open>send_message\<close> to its peer that finds \<open>need_ratchet\<close> false adds one when it
  returns and leaves it when it raises. A \<open>send_message\<close> to the session's peer that
  finds \<open>need_ratchet\<close> true (and a certificate for the peer) starts the count again:
  afterwards \<open>message_n\<close> is \<open>1\<close> when the call returned, and \<open>0\<close> when it raised
  after the reset.
\<close>

theorem counters_over_calls:
  assumes "conns c n = Some s"
  shows "(\<exists>s'. conns (fst (run L xs (c, r))) n = Some s' \<and>
            their_message_n s \<le> their_message_n s') \<and>
         (\<exists>s'. conns (fst (step L (Receive name m) (c, r))) n = Some s' \<and>
            message_n s' = message_n s) \<and>
         (\<exists>s'. conns (fst (step L (Send name p) (c, r))) n = Some s' \<and>
            (if name = n \<and> need_ratchet s \<and> certs c n \<noteq> None
             then message_n s' = (if isl (fst (send_message L name p (c, r))) then 0 else 1)
             else message_n s' =
                    (if name = n \<and> \<not> isl (fst (send_message L name p (c, r)))
                     then message_n s + 1 else message_n s)))"
proof (intro conjI)
  show "\<exists>s'. conns (fst (run L xs (c, r))) n = Some s' \<and>
          their_message_n s \<le> their_message_n s'"
    using run_their_message_n [of "(c, r)" n s L xs] assms by simp
next
  obtain c' r' where e: "snd (receive_message L name m (c, r)) = (c', r')"
    by (cases "snd (receive_message L name m (c, r))")
  from receive_message_counters [OF assms e] e
  show "\<exists>s'. conns (fst (step L (Receive name m) (c, r))) n = Some s' \<and>
          message_n s' = message_n s"
    by auto
next
  obtain c' r' where e: "snd (send_message L name p (c, r)) = (c', r')"
    by (cases "snd (send_message L name p (c, r))")
  from send_message_message_n [OF assms e] e
  show "\<exists>s'. conns (fst (step L (Send name p) (c, r))) n = Some s' \<and>
          (if name = n \<and> need_ratchet s \<and> certs c n \<noteq> None
           then message_n s' = (if isl (fst (send_message L name p (c, r))) then 0 else 1)
           else message_n s' =
                  (if name = n \<and> \<not> isl (fst (send_message L name p (c, r)))
                   then message_n s + 1 else message_n s))"
    by auto
qed

text \<open>
  The instance: \<open>alice\<close> after her two messages to \<open>bob\<close>. The made-up reply and a third
  message take \<open>their_message_n\<close> from \<open>- 1\<close> to \<open>0\<close>; the reply alone leaves \<open>message_n\<close>
  at \<open>2\<close>; a third message sent at once, with \<open>need_ratchet\<close> false, makes it \<open>3\<close>.
\<close>

theorem counters_over_calls_witness:
  "map_option their_message_n
     (conns (fst (run toy_lib [Send ''bob'' ''hello'', Send ''bob'' ''again''] alice)) ''bob'') =
     Some (- 1) \<and>
   map_option their_message_n
     (conns (fst (run toy_lib [Receive ''bob'' forged_reply, Send ''bob'' ''more'']
                    (run toy_lib [Send ''bob'' ''hello'', Send ''bob'' ''again''] alice))) ''bob'') =
     Some 0 \<and>
   map_option message_n
     (conns (fst (step toy_lib (Receive ''bob'' forged_reply)
                    (run toy_lib [Send ''bob'' ''hello'', Send ''bob'' ''again''] alice))) ''bob'') =
     Some 2 \<and>
   map_option message_n
     (conns (fst (step toy_lib (Send ''bob'' ''more'')
                    (run toy_lib [Send ''bob'' ''hello'', Send ''bob'' ''again''] alice))) ''bob'') =
     Some 3"
proof -
  let ?A = "run toy_lib [Send ''bob'' ''hello'', Send ''bob'' ''again''] alice"
  let ?s = "\<lparr>my_dh_private_key = 2, my_dh_public_key = 14, their_dh_public_key = None,
             root_key = 77, sending_chain_key = Some 107, receiving_chain_key = None,
             message_n = 2, their_message_n = - 1, prev_chain_length = 0,
             need_ratchet = False\<rparr> :: nat conn"
  have 1: "conns (fst ?A) ''bob'' = Some ?s"
    by (simp add: method_defs toy_defs)
  have 2: "snd ?A = 7"
    by (simp add: method_defs toy_defs)
  have 3: "?A = (fst ?A, 7)"
    using 2 by (simp add: prod_eq_iff)
  from counters_over_calls [OF 1, of toy_lib "[Receive ''bob'' forged_reply, Send ''bob'' ''more'']" 7
      "''bob''" forged_reply "''more''"] 1
  show ?thesis
    unfolding 3 [symmetric]
    by (simp add: method_defs toy_defs)
qed

text \<open>
  Against C3 as stated: \<open>alice\<close> has sent two messages and then accepted the made-up
  reply, so her \<open>message_n\<close> is \<open>2\<close> and \<open>need_ratchet\<close> is set. Her next \<open>send_message\<close>
  returns, and leaves \<open>message_n\<close> at \<open>1\<close>.
\<close>

theorem message_n_decreases:
  "map_option message_n
     (conns (fst (run toy_lib
        [Send ''bob'' ''hello'', Send ''bob'' ''again'', Receive ''bob'' forged_reply] alice)) ''bob'') =
     Some 2 \<and>
   map_option need_ratchet
     (conns (fst (run toy_lib
        [Send ''bob'' ''hello'', Send ''bob'' ''again'', Receive ''bob'' forged_reply] alice)) ''bob'') =
     Some True \<and>
   \<not> isl (fst (send_message toy_lib ''bob'' ''more'' (run toy_lib
        [Send ''bob'' ''hello'', Send ''bob'' ''again'', Receive ''bob'' forged_reply] alice))) \<and>
   map_option message_n
     (conns (fst (run toy_lib
        [Send ''bob'' ''hello'', Send ''bob'' ''again'', Receive ''bob'' forged_reply,
         Send ''bob'' ''more''] alice)) ''bob'') =
     Some 1"
  by (simp add: method_defs toy_defs)

section \<open>The index check of receive_message\<close>

text \<open>
  C4. On a session the client already has, for a peer whose certificate it holds (as it
  does for every session of a reachable state: \<open>client_inv_session\<close>),
  \<open>receive_message\<close> raises the replay error exactly when the index of the header is
  below \<open>their_message_n\<close>, and raises the tampering error whenever the index is above
  it. The ratchet of the receiving side, run first when the header names a new key, does
  not touch the counter. With any index other than the expected one the call raises, so
  no plaintext is returned, the session then holds the header's key, and its counter is
  the one it had.
\<close>

theorem receive_message_index_errors:
  assumes "certs c name = Some cert" and "conns c name = Some s"
  shows "((fst (receive_message L name (hdr, ct) (c, r)) =
            Inl (ValueError ''Message replay detected!'')) =
          (h_message_n hdr < their_message_n s)) \<and>
         (their_message_n s < h_message_n hdr \<longrightarrow>
            fst (receive_message L name (hdr, ct) (c, r)) =
              Inl (ValueError ''Message tampering detected!'')) \<and>
         (h_message_n hdr \<noteq> their_message_n s \<longrightarrow>
            (\<exists>e s'. fst (receive_message L name (hdr, ct) (c, r)) = Inl e \<and>
               conns (fst (snd (receive_message L name (hdr, ct) (c, r)))) name = Some s' \<and>
               their_dh_public_key s' = Some (h_dh_public_key hdr) \<and>
               their_message_n s' = their_message_n s))"
  using assms
  by (auto simp add: method_defs Let_def
      split: prod.splits option.splits sum.splits if_splits)

text \<open>
  The instance: \<open>alice\<close> has accepted the made-up reply, index \<open>- 1\<close>, and expects index
  \<open>0\<close>. The same reply once more is a replay; the header with index \<open>3\<close> is tampering.
\<close>

theorem receive_message_index_errors_witness:
  "fst (receive_message toy_lib ''bob'' forged_reply
          (run toy_lib [Send ''bob'' ''hello'', Send ''bob'' ''again'', Receive ''bob'' forged_reply]
             alice)) =
     Inl (ValueError ''Message replay detected!'') \<and>
   fst (receive_message toy_lib ''bob'' stray_message
          (run toy_lib [Send ''bob'' ''hello'', Send ''bob'' ''again'', Receive ''bob'' forged_reply]
             alice)) =
     Inl (ValueError ''Message tampering detected!'')"
proof -
  let ?A = "run toy_lib [Send ''bob'' ''hello'', Send ''bob'' ''again'', Receive ''bob'' forged_reply]
              alice"
  let ?s = "\<lparr>my_dh_private_key = 2, my_dh_public_key = 14, their_dh_public_key = Some 84,
             root_key = 175, sending_chain_key = Some 107, receiving_chain_key = Some 209,
             message_n = 2, their_message_n = 0, prev_chain_length = 0,
             need_ratchet = True\<rparr> :: nat conn"
  have 1: "certs (fst ?A) ''bob'' = Some \<lparr>username = ''bob'', public_key = 77\<rparr>"
    by (simp add: method_defs toy_defs)
  have 2: "conns (fst ?A) ''bob'' = Some ?s"
    by (simp add: method_defs toy_defs)
  have 3: "h_message_n (fst forged_reply) < their_message_n ?s"
    and 4: "their_message_n ?s < h_message_n (fst stray_message)"
    by (simp_all add: toy_defs)
  from receive_message_index_errors [OF 1 2, of toy_lib "fst forged_reply" "snd forged_reply" "snd ?A"]
    receive_message_index_errors [OF 1 2, of toy_lib "fst stray_message" "snd stray_message" "snd ?A"]
    3 4
  show ?thesis
    by simp
qed

section \<open>Certificates\<close>

text \<open>
  C5. \<open>receive_certificate\<close> raises exactly when \<open>verify_with_ecdsa\<close>, given the
  authority's public key, the text of the certificate and the signature, returns false.
  When it returns true the certificate is stored under its user name, in place of any
  certificate stored there, and nothing else of the client changes; when it raises, the
  client is as it was.
\<close>

theorem receive_certificate_verifies:
  "((\<exists>e. fst (receive_certificate L cert sg c) = Inl e) =
      (\<not> verify_with_ecdsa L (ca_public_key c) (str_certificate L cert) sg)) \<and>
   receive_certificate L cert sg c =
     (if verify_with_ecdsa L (ca_public_key c) (str_certificate L cert) sg
      then (Inr (), c\<lparr>certs := (certs c)(username cert \<mapsto> cert)\<rparr>)
      else (Inl (ValueError ''Tampering detected!''), c))"
  by (simp add: receive_certificate_def)

section \<open>The escrow ciphertext\<close>

text \<open>
  C7. When \<open>send_message\<close> returns a header and a ciphertext, there is a chain key \<open>k\<close>
  (the one the new sending chain key was derived from) such that, with \<open>aes\<close> the AES key
  derived with the label \<open>encrypt\<close> from the message key of \<open>k\<close>: the ciphertext is the
  encryption of the plaintext under \<open>aes\<close> with the header's \<open>receiver_iv\<close> and the text
  of the header as associated data; and \<open>c_gov\<close> is the encryption of \<open>aes\<close> itself, with
  \<open>iv_gov\<close> and no associated data, under the key derived with the library's escrow
  label from the shared secret of the sender's identity private key and the government
  public key. In a library whose decryption undoes its encryption, decrypting \<open>c_gov\<close>
  with that key returns \<open>aes\<close>.
\<close>

theorem escrow_ciphertext:
  assumes "send_message L name p (c, r) = (Inr (h, ct), c', r')"
  shows "\<exists>keys k s'.
           my_keys c = Some keys \<and> h_v_gov h = kp_public keys \<and>
           conns c' name = Some s' \<and>
           sending_chain_key s' = Some (hmac_to_hmac_key L k ''next_chain_key'') \<and>
           (let aes = hmac_to_aes_key L (hmac_to_hmac_key L k ''message_key'') ''encrypt'';
                gov_aes = hmac_to_aes_key L
                            (compute_dh L (kp_private keys) (gov_public_key c))
                            (gov_encryption_data_str L)
            in ct = encrypt_with_gcm L aes (Str p) (h_receiver_iv h) (Some (str_header L h)) \<and>
               h_c_gov h = encrypt_with_gcm L gov_aes (Bytes aes) (h_iv_gov h) None \<and>
               ((\<forall>key q iv aad.
                    decrypt_with_gcm L key (encrypt_with_gcm L key q iv aad) iv aad = Some q) \<longrightarrow>
                decrypt_with_gcm L gov_aes (h_c_gov h) (h_iv_gov h) None = Some (Bytes aes)))"
  using assms
  by (auto simp add: method_defs Let_def
      split: prod.splits option.splits sum.splits if_splits)

text \<open>
  The instance: the first message of \<open>alice\<close>. Her identity key \<open>1\<close> and the government
  key \<open>21\<close> give the escrow key \<open>49\<close>; the message was encrypted under \<open>187\<close>, and that
  is what decrypting \<open>c_gov\<close> returns.
\<close>

theorem escrow_ciphertext_witness:
  "fst (send_message toy_lib ''bob'' ''hello'' alice) = Inr msg_hello \<and>
   snd msg_hello = encrypt_with_gcm toy_lib 187 (Str ''hello'') 3 (Some (str_header toy_lib (fst msg_hello))) \<and>
   hmac_to_aes_key toy_lib (compute_dh toy_lib 1 21) (gov_encryption_data_str toy_lib) = 49 \<and>
   decrypt_with_gcm toy_lib 49 (h_c_gov (fst msg_hello)) (h_iv_gov (fst msg_hello)) None =
     Some (Bytes 187)"
proof -
  have sent: "fst (send_message toy_lib ''bob'' ''hello'' alice) = Inr msg_hello"
    by (simp add: method_defs toy_defs)
  then have 1: "send_message toy_lib ''bob'' ''hello'' (fst alice, snd alice) =
      (Inr (fst msg_hello, snd msg_hello),
       fst (snd (send_message toy_lib ''bob'' ''hello'' alice)),
       snd (snd (send_message toy_lib ''bob'' ''hello'' alice)))"
    by (simp add: prod_eq_iff)
  have 2: "\<forall>key q iv aad.
      decrypt_with_gcm toy_lib key (encrypt_with_gcm toy_lib key q iv aad) iv aad = Some q"
    by (simp add: toy_lib_def toy_decrypt_def)
  have 3: "my_keys (fst alice) = Some \<lparr>kp_private = 1, kp_public = 7\<rparr>"
    and 4: "gov_public_key (fst alice) = 21"
    by (simp_all add: toy_defs)
  from escrow_ciphertext [OF 1] 2 3 4 sent show ?thesis
    by (auto simp add: toy_defs)
qed

section \<open>The send after a receive\<close>

lemma send_message_success:
  assumes "send_message L name p (c, r) = (Inr (h, ct), c', r')"
  shows "\<exists>cert keys s'. certs c name = Some cert \<and> certs c' = certs c \<and>
           my_keys c = Some keys \<and> my_keys c' = my_keys c \<and>
           conns c' name = Some s' \<and> my_dh_public_key s' = h_dh_public_key h \<and>
           message_n s' = h_message_n h + 1"
  using assms
  by (auto simp add: method_defs Let_def
      split: prod.splits option.splits sum.splits if_splits)

lemma receive_message_success:
  assumes "receive_message L name (hdr, ct) (c, r) = (Inr p, c', r')"
  shows "certs c' = certs c \<and> my_keys c' = my_keys c \<and>
         (\<exists>s'. conns c' name = Some s' \<and> need_ratchet s' \<and>
            their_dh_public_key s' = Some (h_dh_public_key hdr) \<and>
            their_message_n s' = h_message_n hdr + 1 \<and>
            (\<forall>s. conns c name = Some s \<longrightarrow>
               my_dh_public_key s' = my_dh_public_key s \<and> message_n s' = message_n s))"
  using assms
  by (auto simp add: method_defs Let_def
      split: prod.splits option.splits sum.splits if_splits)

lemma send_message_ratchet:
  assumes "certs c name = Some cert" and "conns c name = Some s" and "need_ratchet s"
    and "their_dh_public_key s = Some pk" and "my_keys c = Some keys"
  shows "\<exists>h ct c' r' s'. send_message L name p (c, r) = (Inr (h, ct), c', r') \<and>
           h_dh_public_key h = kp_public (fst (generate_eg L r)) \<and>
           h_prev_chain_length h = message_n s \<and> h_message_n h = 0 \<and>
           conns c' name = Some s' \<and> message_n s' = 1 \<and> \<not> need_ratchet s'"
  using assms
  by (simp add: send_message_def ratchet_dh_sending_keys_def ratchet_sending_chain_def Let_def
      split: prod.splits)

lemma send_message_ratchet_first:
  assumes "certs c name = Some cert" and "conns c name = Some s" and "need_ratchet s"
    and "their_dh_public_key s = Some pk"
  shows "\<exists>cR rR sR. ratchet_dh_sending_keys L name (c, r) = (Inr (), cR, rR) \<and>
           conns cR name = Some sR \<and> message_n sR = 0 \<and> prev_chain_length sR = message_n s \<and>
           my_dh_private_key sR = kp_private (fst (generate_eg L r)) \<and>
           my_dh_public_key sR = kp_public (fst (generate_eg L r)) \<and>
           send_message L name p (c, r) = send_message L name p (cR, rR)"
proof -
  obtain kp r1 where g: "generate_eg L r = (kp, r1)"
    by (cases "generate_eg L r")
  obtain salt r2 where sl: "gen_random_salt L r1 = (salt, r2)"
    by (cases "gen_random_salt L r1")
  obtain rk ck where
    hk: "hkdf L (compute_dh L (kp_private kp) pk) salt ''dh_ratchet_sending'' = (rk, ck)"
    by (cases "hkdf L (compute_dh L (kp_private kp) pk) salt ''dh_ratchet_sending''")
  define sR where "sR = s\<lparr>prev_chain_length := message_n s, message_n := 0,
      my_dh_private_key := kp_private kp, my_dh_public_key := kp_public kp,
      root_key := rk, sending_chain_key := Some ck, need_ratchet := False\<rparr>"
  define cR where "cR = c\<lparr>conns := (conns c)(name \<mapsto> sR)\<rparr>"
  have 1: "ratchet_dh_sending_keys L name (c, r) = (Inr (), cR, r2)"
    using assms g sl hk unfolding cR_def sR_def
    by (cases s) (simp add: ratchet_dh_sending_keys_def Let_def)
  have 2: "send_message L name p (c, r) = send_message L name p (cR, r2)"
    using assms 1 unfolding cR_def sR_def
    by (cases s) (simp add: send_message_def)
  have 3: "conns cR name = Some sR \<and> message_n sR = 0 \<and> prev_chain_length sR = message_n s \<and>
           my_dh_private_key sR = kp_private (fst (generate_eg L r)) \<and>
           my_dh_public_key sR = kp_public (fst (generate_eg L r))"
    using g by (simp add: cR_def sR_def)
  from 1 2 3 show ?thesis
    by blast
qed

lemma receive_message_success_state:
  assumes "receive_message L name (hdr, ct) (c, r) = (Inr p, c', r')"
  shows "(\<exists>cert. certs c name = Some cert) \<and>
         (conns c name = None \<longrightarrow> (\<exists>keys. my_keys c = Some keys))"
  using assms
  by (auto simp add: method_defs Let_def
      split: prod.splits option.splits sum.splits if_splits)

lemma receive_message_local:
  assumes "conns c n = Some s"
  shows "map_option (\<lambda>s'. (my_dh_public_key s', message_n s'))
           (conns (fst (snd (receive_message L name m (c, r)))) n) =
         Some (my_dh_public_key s, message_n s)"
proof (cases "n = name")
  case False
  with assms show ?thesis
    by (simp add: receive_message_other)
next
  case True
  with assms show ?thesis
    by (simp add: method_defs Let_def case_prod_beta split: option.split sum.split)
qed

lemma step_local:
  assumes "conns (fst w) n = Some s" and "\<not> sends_to n x"
  shows "map_option (\<lambda>s'. (my_dh_public_key s', message_n s')) (conns (fst (step L x w)) n) =
         Some (my_dh_public_key s, message_n s)"
proof (cases w)
  case (Pair c r)
  with assms(1) have s: "conns c n = Some s"
    by simp
  show ?thesis
  proof (cases x)
    case (Send name p)
    with assms(2) have "n \<noteq> name"
      by auto
    with s Pair Send show ?thesis
      by (simp add: send_message_other)
  next
    case (Receive name m)
    with receive_message_local [OF s, of L name m r] Pair show ?thesis
      by simp
  qed
qed

lemma run_local:
  "conns (fst w) n = Some s \<Longrightarrow> list_all (\<lambda>x. \<not> sends_to n x) xs \<Longrightarrow>
     map_option (\<lambda>s'. (my_dh_public_key s', message_n s')) (conns (fst (run L xs w)) n) =
     Some (my_dh_public_key s, message_n s)"
proof (induction xs arbitrary: w s)
  case Nil
  then show ?case
    by simp
next
  case (Cons x xs)
  from Cons.prems have nx: "\<not> sends_to n x" and rest: "list_all (\<lambda>x. \<not> sends_to n x) xs"
    by simp_all
  from step_local [OF Cons.prems(1) nx, of L] obtain s1 where
    s1: "conns (fst (step L x w)) n = Some s1"
    and eq1: "my_dh_public_key s1 = my_dh_public_key s" "message_n s1 = message_n s"
    by auto
  from Cons.IH [OF s1 rest] eq1 show ?case
    by simp
qed

text \<open>
  C6. In any state that satisfies \<open>client_inv\<close>, as every reachable state does
  (\<open>reachable_client_inv\<close>), take a \<open>receive_message\<close> that returned. Then
  \<open>need_ratchet\<close> is set in the session, whether the receive created the session or
  found it, and the next \<open>send_message\<close> to that peer is the ratchet of the sending side
  followed by a send: the ratchet returns with \<open>message_n = 0\<close>, with
  \<open>prev_chain_length\<close> the old \<open>message_n\<close> and with a key pair drawn from the random
  source as the local ratchet key pair, and the send from the state the ratchet left gives
  the same result. That send returns, its header carries the drawn public key, the old
  \<open>message_n\<close> as \<open>prev_chain_length\<close> and the index \<open>0\<close>, and the flag is cleared.
  The receive has left the local ratchet key and \<open>message_n\<close> of a session it found as
  they were. And for every earlier \<open>send_message\<close> to that peer that returned, with any
  calls but sends to that peer between it and the receive: the session still holds the
  ratchet key of that header and the \<open>message_n\<close> that send left, and when the drawn
  public key is not the one in that header, the two headers differ in their ratchet key.
\<close>

theorem send_after_receive_ratchets:
  assumes "client_inv c1"
    and "receive_message L name (hdr, ct) (c1, r1) = (Inr p, c2, r2)"
  shows "\<exists>s2 cR rR sR h2 ct2 c3 r3 s3.
           conns c2 name = Some s2 \<and> need_ratchet s2 \<and>
           ratchet_dh_sending_keys L name (c2, r2) = (Inr (), cR, rR) \<and>
           conns cR name = Some sR \<and> message_n sR = 0 \<and>
           prev_chain_length sR = message_n s2 \<and>
           my_dh_private_key sR = kp_private (fst (generate_eg L r2)) \<and>
           my_dh_public_key sR = kp_public (fst (generate_eg L r2)) \<and>
           send_message L name p2 (c2, r2) = send_message L name p2 (cR, rR) \<and>
           send_message L name p2 (c2, r2) = (Inr (h2, ct2), c3, r3) \<and>
           h_dh_public_key h2 = kp_public (fst (generate_eg L r2)) \<and>
           h_prev_chain_length h2 = message_n s2 \<and> h_message_n h2 = 0 \<and>
           conns c3 name = Some s3 \<and> message_n s3 = 1 \<and> \<not> need_ratchet s3 \<and>
           (\<forall>s1. conns c1 name = Some s1 \<longrightarrow>
              my_dh_public_key s2 = my_dh_public_key s1 \<and> message_n s2 = message_n s1) \<and>
           (\<forall>p1 c0 r0 h1 ct1 c' r' xs.
              send_message L name p1 (c0, r0) = (Inr (h1, ct1), c', r') \<and>
              list_all (\<lambda>x. \<not> sends_to name x) xs \<and> fst (run L xs (c', r')) = c1 \<longrightarrow>
              my_dh_public_key s2 = h_dh_public_key h1 \<and>
              message_n s2 = h_message_n h1 + 1 \<and>
              (kp_public (fst (generate_eg L r2)) \<noteq> h_dh_public_key h1 \<longrightarrow>
                 h_dh_public_key h2 \<noteq> h_dh_public_key h1))"
proof -
  from receive_message_success [OF assms(2)] obtain s2 where
    cert2: "certs c2 = certs c1" and keys2: "my_keys c2 = my_keys c1"
    and s2: "conns c2 name = Some s2" "need_ratchet s2"
      "their_dh_public_key s2 = Some (h_dh_public_key hdr)"
    and found: "\<forall>s1. conns c1 name = Some s1 \<longrightarrow>
      my_dh_public_key s2 = my_dh_public_key s1 \<and> message_n s2 = message_n s1"
    by auto
  from receive_message_success_state [OF assms(2)] obtain cert where
    cert: "certs c1 name = Some cert"
    and fresh: "conns c1 name = None \<longrightarrow> (\<exists>keys. my_keys c1 = Some keys)"
    by auto
  have "\<exists>keys. my_keys c1 = Some keys"
  proof (cases "conns c1 name")
    case None
    with fresh show ?thesis
      by simp
  next
    case (Some s1)
    with assms(1) show ?thesis
      by (auto simp add: client_inv_def)
  qed
  then obtain keys where keys: "my_keys c1 = Some keys"
    by blast
  from cert cert2 have c2cert: "certs c2 name = Some cert"
    by simp
  from keys keys2 have c2keys: "my_keys c2 = Some keys"
    by simp
  from send_message_ratchet_first [OF c2cert s2, of L r2 p2] obtain cR rR sR where
    rt: "ratchet_dh_sending_keys L name (c2, r2) = (Inr (), cR, rR)"
      "conns cR name = Some sR" "message_n sR = 0" "prev_chain_length sR = message_n s2"
      "my_dh_private_key sR = kp_private (fst (generate_eg L r2))"
      "my_dh_public_key sR = kp_public (fst (generate_eg L r2))"
      "send_message L name p2 (c2, r2) = send_message L name p2 (cR, rR)"
    by blast
  from send_message_ratchet [OF c2cert s2 c2keys, of L p2 r2] obtain h2 ct2 c3 r3 s3 where
    sd: "send_message L name p2 (c2, r2) = (Inr (h2, ct2), c3, r3)"
      "h_dh_public_key h2 = kp_public (fst (generate_eg L r2))"
      "h_prev_chain_length h2 = message_n s2" "h_message_n h2 = 0"
      "conns c3 name = Some s3" "message_n s3 = 1" "\<not> need_ratchet s3"
    by blast
  have earlier: "my_dh_public_key s2 = h_dh_public_key h1 \<and>
      message_n s2 = h_message_n h1 + 1 \<and>
      (kp_public (fst (generate_eg L r2)) \<noteq> h_dh_public_key h1 \<longrightarrow>
         h_dh_public_key h2 \<noteq> h_dh_public_key h1)"
    if a: "send_message L name p1 (c0, r0) = (Inr (h1, ct1), c', r')"
      and b: "list_all (\<lambda>x. \<not> sends_to name x) xs"
      and c: "fst (run L xs (c', r')) = c1"
    for p1 c0 r0 h1 ct1 c' r' xs
  proof -
    from send_message_success [OF a] obtain s' where
      s': "conns c' name = Some s'" "my_dh_public_key s' = h_dh_public_key h1"
        "message_n s' = h_message_n h1 + 1"
      by auto
    from run_local [of "(c', r')" name s' xs L] s'(1) b c obtain s1 where
      s1: "conns c1 name = Some s1" "my_dh_public_key s1 = my_dh_public_key s'"
        "message_n s1 = message_n s'"
      by auto
    with found s' sd(2) show ?thesis
      by simp
  qed
  then have every_earlier: "\<forall>p1 c0 r0 h1 ct1 c' r' xs.
      send_message L name p1 (c0, r0) = (Inr (h1, ct1), c', r') \<and>
      list_all (\<lambda>x. \<not> sends_to name x) xs \<and> fst (run L xs (c', r')) = c1 \<longrightarrow>
      my_dh_public_key s2 = h_dh_public_key h1 \<and>
      message_n s2 = h_message_n h1 + 1 \<and>
      (kp_public (fst (generate_eg L r2)) \<noteq> h_dh_public_key h1 \<longrightarrow>
         h_dh_public_key h2 \<noteq> h_dh_public_key h1)"
    by blast
  show ?thesis
    by (intro exI [of _ s2] exI [of _ cR] exI [of _ rR] exI [of _ sR] exI [of _ h2]
        exI [of _ ct2] exI [of _ c3] exI [of _ r3] exI [of _ s3] conjI)
      (fact s2 rt sd found every_earlier)+
qed

text \<open>
  Two instances. \<open>alice\<close> sends \<open>again\<close> with the ratchet key \<open>14\<close>, a send to a
  name she has no certificate for raises and changes nothing, she accepts the made-up
  reply, and sends \<open>more\<close>: the header carries the key \<open>63\<close>, the chain length \<open>2\<close> and
  the index \<open>0\<close>. And \<open>bob\<close>, with no session and nothing sent, accepts the made-up
  first message, which creates his session, and replies: the header carries the key
  \<open>91\<close>, not his identity key \<open>77\<close>, the chain length \<open>0\<close> and the index \<open>0\<close>.
\<close>

theorem send_after_receive_ratchets_witness:
  "fst (send_message toy_lib ''bob'' ''again'' (run toy_lib [Send ''bob'' ''hello''] alice)) =
     Inr msg_again \<and>
   fst (receive_message toy_lib ''bob'' forged_reply
          (run toy_lib [Send ''bob'' ''hello'', Send ''bob'' ''again'', Send ''carol'' ''hey'']
             alice)) = Inr (Str ''hi'') \<and>
   map_option need_ratchet (conns (fst (run toy_lib
     [Send ''bob'' ''hello'', Send ''bob'' ''again'', Send ''carol'' ''hey'',
      Receive ''bob'' forged_reply] alice)) ''bob'') =
     Some True \<and>
   fst (send_message toy_lib ''bob'' ''more'' (run toy_lib
     [Send ''bob'' ''hello'', Send ''bob'' ''again'', Send ''carol'' ''hey'',
      Receive ''bob'' forged_reply] alice)) =
     Inr (\<lparr>h_dh_public_key = 63, h_prev_chain_length = 2, h_message_n = 0, h_receiver_iv = 10,
            h_v_gov = 7, h_c_gov = (49, Bytes 1595, 11, None), h_iv_gov = 11\<rparr>,
          (1595, Str ''more'', 10, Some [])) \<and>
   conns (fst bob) ''alice'' = None \<and>
   fst (receive_message toy_lib ''alice'' forged_first bob) = Inr (Str ''hello'') \<and>
   map_option need_ratchet
     (conns (fst (step toy_lib (Receive ''alice'' forged_first) bob)) ''alice'') = Some True \<and>
   fst (send_message toy_lib ''alice'' ''hi'' (step toy_lib (Receive ''alice'' forged_first) bob)) =
     Inr (\<lparr>h_dh_public_key = 91, h_prev_chain_length = 0, h_message_n = 0, h_receiver_iv = 14,
            h_v_gov = 77, h_c_gov = (469, Bytes 455, 15, None), h_iv_gov = 15\<rparr>,
          (455, Str ''hi'', 14, Some []))"
proof -
  let ?A2 = "run toy_lib [Send ''bob'' ''hello'', Send ''bob'' ''again'', Send ''carol'' ''hey'']
     alice"
  let ?A3 = "run toy_lib
     [Send ''bob'' ''hello'', Send ''bob'' ''again'', Send ''carol'' ''hey'',
      Receive ''bob'' forged_reply] alice"
  let ?B1 = "step toy_lib (Receive ''alice'' forged_first) bob"
  have i0: "client_inv (fst alice)" and ib: "client_inv (fst bob)"
    by (simp_all add: client_inv_def toy_defs)
  from i0 have ia: "client_inv (fst ?A2)"
    by (rule client_inv_run)
  have got: "fst (receive_message toy_lib ''bob'' forged_reply ?A2) = Inr (Str ''hi'')"
    by (simp add: method_defs toy_defs)
  have a3: "snd (receive_message toy_lib ''bob'' forged_reply ?A2) = ?A3"
    by simp
  have 1: "receive_message toy_lib ''bob'' (fst forged_reply, snd forged_reply) (fst ?A2, snd ?A2) =
      (Inr (Str ''hi''), fst ?A3, snd ?A3)"
    using got a3 by (simp add: prod_eq_iff del: run.simps)
  have gotb: "fst (receive_message toy_lib ''alice'' forged_first bob) = Inr (Str ''hello'')"
    by (simp add: method_defs toy_defs)
  have 2: "receive_message toy_lib ''alice'' (fst forged_first, snd forged_first) (fst bob, snd bob) =
      (Inr (Str ''hello''), fst ?B1, snd ?B1)"
    using gotb by (simp add: prod_eq_iff)
  have evaluated: ?thesis
    by (simp add: method_defs toy_defs)
  from send_after_receive_ratchets [OF ia 1, of "''more''"]
    send_after_receive_ratchets [OF ib 2, of "''hi''"]
  show ?thesis
    by - (rule evaluated)
qed

section \<open>The ratchet of the sending side\<close>

text \<open>
  C8. On a session that holds a peer ratchet key, as every session with \<open>need_ratchet\<close>
  set does in a reachable state (\<open>client_inv_need_ratchet\<close>, \<open>reachable_client_inv\<close>),
  \<open>_ratchet_dh_sending_keys\<close> returns,
  having drawn a key pair and then a salt from the random source, and changes that
  session only: \<open>prev_chain_length\<close> becomes the old \<open>message_n\<close>, \<open>message_n\<close> becomes
  \<open>0\<close>, the local ratchet key pair becomes the drawn one, \<open>root_key\<close> and
  \<open>sending_chain_key\<close> become the two outputs of \<open>hkdf\<close> on the shared secret of the
  new private key and \<open>their_dh_public_key\<close>, with the salt and the label
  \<open>dh_ratchet_sending\<close>, and \<open>need_ratchet\<close> becomes false. The fields
  \<open>their_dh_public_key\<close>, \<open>receiving_chain_key\<close> and \<open>their_message_n\<close> keep their
  values.
\<close>

theorem ratchet_dh_sending_keys_effect:
  assumes "conns c name = Some s" and "their_dh_public_key s = Some pk"
    and "generate_eg L r = (kp, r1)" and "gen_random_salt L r1 = (salt, r2)"
  shows "ratchet_dh_sending_keys L name (c, r) =
           (Inr (),
            c\<lparr>conns := (conns c)(name \<mapsto>
                 s\<lparr>prev_chain_length := message_n s,
                   message_n := 0,
                   my_dh_private_key := kp_private kp,
                   my_dh_public_key := kp_public kp,
                   root_key :=
                     fst (hkdf L (compute_dh L (kp_private kp) pk) salt ''dh_ratchet_sending''),
                   sending_chain_key :=
                     Some (snd (hkdf L (compute_dh L (kp_private kp) pk) salt
                                  ''dh_ratchet_sending'')),
                   need_ratchet := False\<rparr>)\<rparr>,
            r2)"
  using assms
  by (cases s) (simp add: ratchet_dh_sending_keys_def Let_def split: prod.splits)

text \<open>
  The instance: the session of \<open>alice\<close> once she has accepted the made-up reply, with
  \<open>need_ratchet\<close> set, \<open>message_n = 2\<close> and the random source at \<open>8\<close>.
\<close>

theorem ratchet_dh_sending_keys_effect_witness:
  "conns (fst (run toy_lib
       [Send ''bob'' ''hello'', Send ''bob'' ''again'', Receive ''bob'' forged_reply] alice)) ''bob'' =
     Some \<lparr>my_dh_private_key = 2, my_dh_public_key = 14, their_dh_public_key = Some 84,
           root_key = 175, sending_chain_key = Some 107, receiving_chain_key = Some 209,
           message_n = 2, their_message_n = 0, prev_chain_length = 0, need_ratchet = True\<rparr> \<and>
   fst (ratchet_dh_sending_keys toy_lib ''bob'' (run toy_lib
       [Send ''bob'' ''hello'', Send ''bob'' ''again'', Receive ''bob'' forged_reply] alice)) = Inr () \<and>
   conns (fst (snd (ratchet_dh_sending_keys toy_lib ''bob'' (run toy_lib
       [Send ''bob'' ''hello'', Send ''bob'' ''again'', Receive ''bob'' forged_reply] alice)))) ''bob'' =
     Some \<lparr>my_dh_private_key = 9, my_dh_public_key = 63, their_dh_public_key = Some 84,
           root_key = 765, sending_chain_key = Some 783, receiving_chain_key = Some 209,
           message_n = 0, their_message_n = 0, prev_chain_length = 2, need_ratchet = False\<rparr> \<and>
   snd (snd (ratchet_dh_sending_keys toy_lib ''bob'' (run toy_lib
       [Send ''bob'' ''hello'', Send ''bob'' ''again'', Receive ''bob'' forged_reply] alice))) = 10"
proof -
  let ?A = "run toy_lib
       [Send ''bob'' ''hello'', Send ''bob'' ''again'', Receive ''bob'' forged_reply] alice"
  let ?s = "\<lparr>my_dh_private_key = 2, my_dh_public_key = 14, their_dh_public_key = Some 84,
             root_key = 175, sending_chain_key = Some 107, receiving_chain_key = Some 209,
             message_n = 2, their_message_n = 0, prev_chain_length = 0,
             need_ratchet = True\<rparr> :: nat conn"
  have 1: "conns (fst ?A) ''bob'' = Some ?s"
    by (simp add: method_defs toy_defs)
  have 2: "their_dh_public_key ?s = Some 84"
    by simp
  have 3: "generate_eg toy_lib 8 = (\<lparr>kp_private = 9, kp_public = 63\<rparr>, 9)"
    and 4: "gen_random_salt toy_lib 9 = (9, 10)"
    by (simp_all add: toy_lib_def)
  have 5: "?A = (fst ?A, 8)"
    by (simp add: prod_eq_iff) (simp add: method_defs toy_defs)
  have 6: "hkdf toy_lib (compute_dh toy_lib 9 84) 9 ''dh_ratchet_sending'' = (765, 783)"
    by (simp add: toy_lib_def)
  from ratchet_dh_sending_keys_effect [OF 1 2 3 4] 1 6 show ?thesis
    unfolding 5 [symmetric] by simp
qed

section \<open>A new receiving session\<close>

text \<open>
  C9 (as amended). For a peer whose certificate the client holds, and once the client
  has its identity keys, \<open>_initialize_receiving_session\<close> returns having drawn one salt
  and no key pair: the local ratchet key pair of the new session is the identity key pair
  itself. The rest is as on the sending side: \<open>root_key\<close> is the shared secret of the
  identity private key and the peer's certified public key, \<open>message_n = 0\<close>,
  \<open>their_message_n = - 1\<close>, \<open>prev_chain_length = 0\<close>, \<open>need_ratchet\<close> false, no sending
  chain; \<open>receiving_chain_key\<close> is the second output of \<open>hkdf\<close> on the shared secret
  with the salt and the label \<open>receiving_chain_init\<close>, and \<open>their_dh_public_key\<close> is the
  key of the header.
\<close>

theorem initialize_receiving_session_effect:
  assumes "certs c name = Some cert" and "my_keys c = Some keys"
    and "gen_random_salt L r = (salt, r1)"
  shows "initialize_receiving_session L name hdr (c, r) =
           (Inr (),
            c\<lparr>conns := (conns c)(name \<mapsto>
                 \<lparr>my_dh_private_key = kp_private keys,
                  my_dh_public_key = kp_public keys,
                  their_dh_public_key = Some (h_dh_public_key hdr),
                  root_key = compute_dh L (kp_private keys) (public_key cert),
                  sending_chain_key = None,
                  receiving_chain_key =
                    Some (snd (hkdf L (compute_dh L (kp_private keys) (public_key cert)) salt
                                 ''receiving_chain_init'')),
                  message_n = 0,
                  their_message_n = - 1,
                  prev_chain_length = 0,
                  need_ratchet = False\<rparr>)\<rparr>,
            r1)"
  using assms
  by (simp add: initialize_receiving_session_def Let_def split: prod.splits)

text \<open>The instance: \<open>bob\<close>, on the header of the first message of \<open>alice\<close>.\<close>

theorem initialize_receiving_session_effect_witness:
  "fst (initialize_receiving_session toy_lib ''alice'' (fst msg_hello) bob) = Inr () \<and>
   conns (fst (snd (initialize_receiving_session toy_lib ''alice'' (fst msg_hello) bob))) ''alice'' =
     Some \<lparr>my_dh_private_key = 11, my_dh_public_key = 77, their_dh_public_key = Some 14,
           root_key = 77, sending_chain_key = None, receiving_chain_key = Some 108,
           message_n = 0, their_message_n = - 1, prev_chain_length = 0, need_ratchet = False\<rparr> \<and>
   snd (snd (initialize_receiving_session toy_lib ''alice'' (fst msg_hello) bob)) = 12"
proof -
  have 1: "certs (fst bob) ''alice'' = Some \<lparr>username = ''alice'', public_key = 7\<rparr>"
    and 2: "my_keys (fst bob) = Some \<lparr>kp_private = 11, kp_public = 77\<rparr>"
    and 3: "gen_random_salt toy_lib 11 = (11, 12)"
    and 4: "bob = (fst bob, 11)"
    by (simp_all add: toy_defs prod_eq_iff)
  from initialize_receiving_session_effect [OF 1 2 3, of "fst msg_hello"] show ?thesis
    unfolding 4 [symmetric] by (simp add: toy_defs)
qed

text \<open>
  Against C9 as stated: the identity key pair of \<open>bob\<close> is \<open>(11, 77)\<close>, and a key pair
  drawn from his random source would be \<open>(12, 84)\<close>. The session he initialises has the
  pair \<open>(11, 77)\<close>, and the random source has moved by the one salt.
\<close>

theorem receiving_session_reuses_identity_keys:
  "my_keys (fst bob) = Some \<lparr>kp_private = 11, kp_public = 77\<rparr> \<and>
   fst (generate_eg toy_lib (snd bob)) = \<lparr>kp_private = 12, kp_public = 84\<rparr> \<and>
   map_option my_dh_private_key
     (conns (fst (snd (initialize_receiving_session toy_lib ''alice'' (fst msg_hello) bob))) ''alice'') =
     Some 11 \<and>
   map_option my_dh_public_key
     (conns (fst (snd (initialize_receiving_session toy_lib ''alice'' (fst msg_hello) bob))) ''alice'') =
     Some 77 \<and>
   snd (snd (initialize_receiving_session toy_lib ''alice'' (fst msg_hello) bob)) =
     snd (gen_random_salt toy_lib (snd bob))"
  by (simp add: method_defs toy_defs)

section \<open>The two chain ratchets\<close>

text \<open>
  C10. For every chain key, \<open>_ratchet_sending_chain\<close> and \<open>_ratchet_receiving_chain\<close>
  return the same pair: the HMAC-derived key of the chain key under the label
  \<open>message_key\<close>, then the one under the label \<open>next_chain_key\<close>. Both are functions of
  the chain key alone.
\<close>

theorem ratchet_chains_agree:
  "ratchet_sending_chain L k = ratchet_receiving_chain L k \<and>
   ratchet_sending_chain L k =
     (hmac_to_hmac_key L k ''message_key'', hmac_to_hmac_key L k ''next_chain_key'')"
  by (simp add: ratchet_sending_chain_def ratchet_receiving_chain_def)

end
